theory Spec2Isabelle
  imports Main
begin

section \<open>Go values used by the provider\<close>

text \<open>
  A Go \<^verbatim>\<open>error\<close> value is \<open>None\<close> (nil) or \<open>Some e\<close>. The errors the provider can see
  are the transport error of \<^verbatim>\<open>net/http\<close>, the two decoding errors of
  \<^verbatim>\<open>encoding/json\<close> and the ones it builds itself with \<^verbatim>\<open>fmt.Errorf\<close>.
\<close>

datatype error =
    UrlError string
  | SyntaxError string
  | UnmarshalTypeError string
  | ErrorString string

text \<open>The method \<^verbatim>\<open>err.Error()\<close>.\<close>

fun Error :: "error \<Rightarrow> string" where
  "Error (UrlError msg) = msg"
| "Error (SyntaxError msg) = msg"
| "Error (UnmarshalTypeError v) =
     ''json: cannot unmarshal '' @ v @ '' into Go value of type map[string]interface {}''"
| "Error (ErrorString msg) = msg"

text \<open>
  A run-time panic is not an \<^verbatim>\<open>error\<close> value: it unwinds the stack, and none of the
  functions below recovers. A function that may panic returns \<open>panic + 'a\<close>.
\<close>

datatype panic = InterfaceConversion | NilDereference

text \<open>
  What \<^verbatim>\<open>encoding/json\<close> stores in an \<^verbatim>\<open>interface{}\<close>: nil, bool, float64 (only
  its dynamic type is ever looked at), string, a slice, or a \<^verbatim>\<open>map[string]interface{}\<close>.
\<close>

datatype json =
    JNull
  | JBool bool
  | JNumber int
  | JString string
  | JArray "json list"
  | JObject "(string \<times> json) list"

text \<open>A JSON object read into a Go map: a repeated key keeps its last value.\<close>

definition object_map :: "(string \<times> json) list \<Rightarrow> (string \<rightharpoonup> json)" where
  "object_map kvs = map_of (rev kvs)"

text \<open>
  The bytes of a response body, as the JSON decoder sees them: text that is not JSON
  (with the decoder's message), or one JSON value.
\<close>

datatype body = Malformed string | WellFormed json

text \<open>
  \<^verbatim>\<open>json.Unmarshal(body, &jsonBody)\<close> for \<^verbatim>\<open>var jsonBody map[string]interface{}\<close>.
  The literal \<^verbatim>\<open>null\<close> leaves the map nil without an error; reading a nil map gives the
  zero value, as reading an empty one does.
\<close>

fun json_Unmarshal :: "body \<Rightarrow> error + (string \<rightharpoonup> json)" where
  "json_Unmarshal (Malformed msg) = Inl (SyntaxError msg)"
| "json_Unmarshal (WellFormed JNull) = Inr Map.empty"
| "json_Unmarshal (WellFormed (JObject kvs)) = Inr (object_map kvs)"
| "json_Unmarshal (WellFormed (JBool b)) = Inl (UnmarshalTypeError ''bool'')"
| "json_Unmarshal (WellFormed (JNumber n)) = Inl (UnmarshalTypeError ''number'')"
| "json_Unmarshal (WellFormed (JString s)) = Inl (UnmarshalTypeError ''string'')"
| "json_Unmarshal (WellFormed (JArray xs)) = Inl (UnmarshalTypeError ''array'')"

text \<open>
  The single-value type assertions \<^verbatim>\<open>x.(map[string]interface{})\<close>, \<^verbatim>\<open>x.(bool)\<close> and
  \<^verbatim>\<open>x.(string)\<close> on the result of a map lookup: a missing key and \<^verbatim>\<open>null\<close> are both
  the nil interface, and an assertion on the wrong dynamic type panics.
\<close>

fun assert_map :: "json option \<Rightarrow> panic + (string \<rightharpoonup> json)" where
  "assert_map (Some (JObject kvs)) = Inr (object_map kvs)"
| "assert_map _ = Inl InterfaceConversion"

fun assert_bool :: "json option \<Rightarrow> panic + bool" where
  "assert_bool (Some (JBool b)) = Inr b"
| "assert_bool _ = Inl InterfaceConversion"

fun assert_string :: "json option \<Rightarrow> panic + string" where
  "assert_string (Some (JString s)) = Inr s"
| "assert_string _ = Inl InterfaceConversion"


section \<open>HTTP\<close>

record response =
  StatusCode :: int
  Body :: body

text \<open>
  The two calls the provider makes: \<^verbatim>\<open>client.Get(url)\<close> and
  \<^verbatim>\<open>client.Post(url, contentType, body)\<close>, the body being the JSON value that
  \<^verbatim>\<open>json.Marshal\<close> wrote.
\<close>

datatype request = Get string | Post string string json

text \<open>
  The network answers a request with \<^verbatim>\<open>(nil, err)\<close> (\<open>Inl err\<close>) or with
  \<^verbatim>\<open>(resp, nil)\<close> (\<open>Inr resp\<close>). The state threaded through every operation is the
  list of the requests sent so far.
\<close>

type_synonym transport = "request \<Rightarrow> error + response"

definition send :: "transport \<Rightarrow> request \<Rightarrow> request list \<Rightarrow> (error + response) \<times> request list" where
  "send t req log = (t req, log @ [req])"


section \<open>The three helper operations\<close>

text \<open>\<^verbatim>\<open>checkConnection\<close>: \<open>None\<close> is the nil error.\<close>

definition checkConnection :: "transport \<Rightarrow> string \<Rightarrow> request list \<Rightarrow> error option \<times> request list" where
  "checkConnection t endpoint log =
     (case send t (Get endpoint) log of
        (Inl err, log') \<Rightarrow> (Some err, log')
      | (Inr resp, log') \<Rightarrow>
          if StatusCode resp = 502 \<or> StatusCode resp = 503
          then (Some (ErrorString ''Kuzzle server is not reachable''), log')
          else (None, log'))"

text \<open>
  \<^verbatim>\<open>checkToken\<close>. In the branch \<^verbatim>\<open>resp.StatusCode != 200\<close> the source returns the
  variable \<^verbatim>\<open>err\<close> of the Post call, which is nil there.
\<close>

definition checkToken ::
  "transport \<Rightarrow> string \<Rightarrow> string \<Rightarrow> request list \<Rightarrow> (panic + error option) \<times> request list" where
  "checkToken t endpoint token log =
     (let reqBody = JObject [(''jwt'', JString token)] in
      case send t (Post (endpoint @ ''/_checkToken'') ''application/json'' reqBody) log of
        (Inl err, log') \<Rightarrow> (Inr (Some err), log')
      | (Inr resp, log') \<Rightarrow>
          if StatusCode resp \<noteq> 200 then (Inr None, log')
          else
            (case json_Unmarshal (Body resp) of
               Inl err \<Rightarrow> (Inr (Some err), log')
             | Inr jsonBody \<Rightarrow>
                 (case assert_map (jsonBody ''result'') of
                    Inl p \<Rightarrow> (Inl p, log')
                  | Inr result \<Rightarrow>
                      (case assert_bool (result ''valid'') of
                         Inl p \<Rightarrow> (Inl p, log')
                       | Inr valid \<Rightarrow>
                           if valid \<noteq> True
                           then (Inr (Some (ErrorString ''Kuzzle API key is invalid'')), log')
                           else (Inr None, log')))))"

text \<open>
  \<^verbatim>\<open>tryAuthenticate\<close> returns the pair \<^verbatim>\<open>(jwt, err)\<close>. \<^verbatim>\<open>json.Marshal\<close> writes the
  keys of a map in sorted order.
\<close>

definition tryAuthenticate ::
  "transport \<Rightarrow> string \<Rightarrow> string \<Rightarrow> string \<Rightarrow> request list
     \<Rightarrow> (panic + string \<times> error option) \<times> request list" where
  "tryAuthenticate t endpoint username password log =
     (let reqBody = JObject [(''password'', JString password), (''username'', JString username)] in
      case send t (Post (endpoint @ ''/_login/local'') ''application/json'' reqBody) log of
        (Inl err, log') \<Rightarrow> (Inr ('''', Some err), log')
      | (Inr resp, log') \<Rightarrow>
          if StatusCode resp \<noteq> 200
          then (Inr ('''', Some (ErrorString ''Kuzzle authentication failed'')), log')
          else
            (case json_Unmarshal (Body resp) of
               Inl err \<Rightarrow> (Inr ('''', Some err), log')
             | Inr jsonBody \<Rightarrow>
                 (case assert_map (jsonBody ''result'') of
                    Inl p \<Rightarrow> (Inl p, log')
                  | Inr result \<Rightarrow>
                      (case assert_string (result ''jwt'') of
                         Inl p \<Rightarrow> (Inl p, log')
                       | Inr jwt \<Rightarrow> (Inr (jwt, None), log')))))"


section \<open>The provider\<close>

record Config =
  Endpoint :: string
  Token :: string

datatype Severity = diag_Error | diag_Warning

record Diagnostic =
  Severity :: Severity
  Summary :: string
  Detail :: string

text \<open>
  \<^verbatim>\<open>diag.Errorf(format, a...)\<close> of the plugin SDK: one Error diagnostic whose summary
  is the formatted message. The argument here is the message already formatted.
\<close>

definition diag_Errorf :: "string \<Rightarrow> Diagnostic list" where
  "diag_Errorf msg = [\<lparr>Severity = diag_Error, Summary = msg, Detail = ''''\<rparr>]"

text \<open>What \<^verbatim>\<open>d.Get\<close> reads: four strings, the empty string when a key is not set.\<close>

record ResourceData =
  endpoint :: string
  api_key :: string
  username :: string
  password :: string

text \<open>
  \<^verbatim>\<open>providerConfigure\<close> has the named results \<^verbatim>\<open>config\<close> and \<^verbatim>\<open>diags\<close>; a bare
  \<^verbatim>\<open>return\<close> returns their current values. The body is cut at its three
  \<^verbatim>\<open>if\<close> statements, each part taking the values the named results have when it
  starts. \<open>anonymous_step\<close> is lines 125 to 137.
\<close>

definition anonymous_step ::
  "string \<Rightarrow> Config option \<Rightarrow> Diagnostic list \<Rightarrow> Config option \<times> Diagnostic list" where
  "anonymous_step ep config diags =
     (if config = None
      then (Some \<lparr>Endpoint = ep, Token = ''''\<rparr>,
            diags @ [\<lparr>Severity = diag_Warning,
                      Summary = ''Kuzzle authentication credentials not provided'',
                      Detail = ''No authentication credentials provided. Using anonymous authentication...''\<rparr>])
      else (config, diags))"

text \<open>Lines 107 to 137.\<close>

definition api_key_step ::
  "transport \<Rightarrow> string \<Rightarrow> string \<Rightarrow> Config option \<Rightarrow> Diagnostic list \<Rightarrow> request list
     \<Rightarrow> (panic + Config option \<times> Diagnostic list) \<times> request list" where
  "api_key_step t ep apiKey config diags log =
     (if apiKey \<noteq> ''''
      then
        (case checkToken t ep apiKey log of
           (Inl p, log') \<Rightarrow> (Inl p, log')
         | (Inr (Some err), log') \<Rightarrow>
             (Inr (config,
                   diags @ [\<lparr>Severity = diag_Error,
                             Summary = ''Kuzzle provided API key is invalid'',
                             Detail = Error err\<rparr>]), log')
         | (Inr None, log') \<Rightarrow>
             (Inr (anonymous_step ep (Some \<lparr>Endpoint = ep, Token = apiKey\<rparr>) diags), log'))
      else (Inr (anonymous_step ep config diags), log))"

text \<open>Lines 89 to 137.\<close>

definition credentials_step ::
  "transport \<Rightarrow> string \<Rightarrow> string \<Rightarrow> string \<Rightarrow> string \<Rightarrow> Config option \<Rightarrow> Diagnostic list
     \<Rightarrow> request list \<Rightarrow> (panic + Config option \<times> Diagnostic list) \<times> request list" where
  "credentials_step t ep apiKey user pass config diags log =
     (if user \<noteq> '''' \<and> pass \<noteq> ''''
      then
        (case tryAuthenticate t ep user pass log of
           (Inl p, log') \<Rightarrow> (Inl p, log')
         | (Inr (jwt, Some err), log') \<Rightarrow>
             (Inr (config,
                   diags @ [\<lparr>Severity = diag_Error,
                             Summary = ''Kuzzle authentication failed'',
                             Detail = Error err\<rparr>]), log')
         | (Inr (jwt, None), log') \<Rightarrow>
             api_key_step t ep apiKey (Some \<lparr>Endpoint = ep, Token = jwt\<rparr>) diags log')
      else api_key_step t ep apiKey config diags log)"

text \<open>The whole function: both named results start nil.\<close>

definition providerConfigure ::
  "transport \<Rightarrow> ResourceData \<Rightarrow> request list
     \<Rightarrow> (panic + Config option \<times> Diagnostic list) \<times> request list" where
  "providerConfigure t d log =
     (case checkConnection t (endpoint d) log of
        (Some err, log') \<Rightarrow>
          (Inr (None, diag_Errorf (''Error connecting to Kuzzle: '' @ Error err)), log')
      | (None, log') \<Rightarrow>
          credentials_step t (endpoint d) (api_key d) (username d) (password d) None [] log')"


section \<open>The endpoint validator of the schema\<close>

text \<open>The one field of \<^verbatim>\<open>url.URL\<close> the validator reads.\<close>

record URL =
  Scheme :: string

text \<open>
  The verb \<^verbatim>\<open>%q\<close> on a key: the key between double quotes, a double quote or a
  backslash inside it escaped by a backslash (schema keys hold no other character that
  \<^verbatim>\<open>strconv.Quote\<close> escapes).
\<close>

definition fmt_q :: "string \<Rightarrow> string" where
  "fmt_q k =
     [CHR 0x22] @
     concat (map (\<lambda>c. if c = CHR 0x22 \<or> c = CHR 0x5C then [CHR 0x5C, c] else [c]) k) @
     [CHR 0x22]"

text \<open>
  \<^verbatim>\<open>ValidateFunc\<close> of \<^verbatim>\<open>endpoint\<close> (lines 29 to 44), over the result of
  \<^verbatim>\<open>url.Parse\<close>: \<open>Inl err\<close> is \<^verbatim>\<open>(nil, err)\<close>, \<open>Inr u\<close> is \<^verbatim>\<open>(u, nil)\<close>. After a
  parse error \<^verbatim>\<open>URL\<close> is a nil pointer and line 39 reads \<^verbatim>\<open>URL.Scheme\<close> all the same.
  The result is the pair \<^verbatim>\<open>(ws, errors)\<close>.
\<close>

definition ValidateFunc ::
  "(string \<Rightarrow> error + URL) \<Rightarrow> string \<Rightarrow> string \<Rightarrow> panic + string list \<times> error list" where
  "ValidateFunc url_Parse v k =
     (let errors = (if v = '''' then [ErrorString (fmt_q k @ '' must be a non-empty string'')] else [])
      in case url_Parse v of
           Inl err \<Rightarrow>
             (let errors = errors @ [ErrorString (fmt_q k @ '' must be a valid URL'')]
              in Inl NilDereference)
         | Inr u \<Rightarrow>
             (let errors =
                    (if Scheme u \<noteq> ''http'' \<and> Scheme u \<noteq> ''https''
                     then errors @ [ErrorString (fmt_q k @ '' must be a valid URL with http or https scheme'')]
                     else errors)
              in Inr ([], errors)))"


section \<open>Mock servers\<close>

text \<open>
  The servers of the test file: one reply per route of the endpoint, and no reply at
  all when the mock is off.
\<close>

definition gock :: "string \<Rightarrow> response \<Rightarrow> response \<Rightarrow> response \<Rightarrow> transport" where
  "gock url root login check req =
     (case req of
        Get u \<Rightarrow> if u = url then Inr root else Inl (UrlError ''no mock matches the request'')
      | Post u ct b \<Rightarrow>
          if u = url @ ''/_login/local'' then Inr login
          else if u = url @ ''/_checkToken'' then Inr check
          else Inl (UrlError ''no mock matches the request''))"

definition gock_off :: transport where
  "gock_off req = Inl (UrlError ''dial tcp: lookup kuzzle: no such host'')"

definition reply :: "int \<Rightarrow> body \<Rightarrow> response" where
  "reply code b = \<lparr>StatusCode = code, Body = b\<rparr>"

definition settings :: "string \<Rightarrow> string \<Rightarrow> string \<Rightarrow> ResourceData" where
  "settings key user pass =
     \<lparr>endpoint = ''http://kuzzle:7512'', api_key = key, username = user, password = pass\<rparr>"

definition body_ok :: body where
  "body_ok = WellFormed (JObject [(''result'', JString ''ok'')])"

definition body_jwt :: body where
  "body_jwt =
     WellFormed (JObject [(''result'', JObject [(''jwt'', JString ''mySuperAuthenticationToken'')])])"

definition body_valid :: "bool \<Rightarrow> body" where
  "body_valid b = WellFormed (JObject [(''result'', JObject [(''valid'', JBool b)])])"

definition body_not_authorized :: body where
  "body_not_authorized = WellFormed (JObject [(''result'', JString ''Not Authorized'')])"

definition body_empty_result :: body where
  "body_empty_result = WellFormed (JObject [(''result'', JObject [])])"

definition url_Parse_rejecting :: "string \<Rightarrow> error + URL" where
  "url_Parse_rejecting raw = Inl (UrlError ''missing protocol scheme'')"


section \<open>Traces\<close>

lemma checkConnection_trace: "snd (checkConnection t ep log) = log @ [Get ep]"
  by (simp add: checkConnection_def send_def split: sum.splits)

lemma checkToken_trace:
  "snd (checkToken t ep tok log) =
     log @ [Post (ep @ ''/_checkToken'') ''application/json'' (JObject [(''jwt'', JString tok)])]"
  by (simp add: checkToken_def send_def Let_def split: sum.splits)

lemma tryAuthenticate_trace:
  "snd (tryAuthenticate t ep user pass log) =
     log @ [Post (ep @ ''/_login/local'') ''application/json''
              (JObject [(''password'', JString pass), (''username'', JString user)])]"
  by (simp add: tryAuthenticate_def send_def Let_def split: sum.splits)

lemma api_key_step_trace:
  "snd (api_key_step t ep key config diags log) =
     (if key \<noteq> ''''
      then log @ [Post (ep @ ''/_checkToken'') ''application/json'' (JObject [(''jwt'', JString key)])]
      else log)"
  using checkToken_trace [of t ep key log]
  by (auto simp: api_key_step_def split: prod.splits sum.splits option.splits)


section \<open>checkConnection\<close>

text \<open>
  C5. \<^verbatim>\<open>checkConnection\<close> returns an error exactly when the GET to the endpoint cannot
  be sent or the response status is 502 or 503; for every other status (403 and 404
  among them) it returns nil.
\<close>

theorem checkConnection_fails_iff:
  "(fst (checkConnection t ep log) \<noteq> None) =
     (case t (Get ep) of
        Inl err \<Rightarrow> True
      | Inr resp \<Rightarrow> StatusCode resp = 502 \<or> StatusCode resp = 503)"
  by (simp add: checkConnection_def send_def split: sum.splits)


section \<open>providerConfigure\<close>

lemma checkConnection_pair:
  "checkConnection t ep log = (fst (checkConnection t ep log), log @ [Get ep])"
  using checkConnection_trace [of t ep log] by (simp add: prod_eq_iff)

lemma providerConfigure_connected:
  assumes "fst (checkConnection t (endpoint d) log) = None"
  shows "providerConfigure t d log =
           credentials_step t (endpoint d) (api_key d) (username d) (password d) None []
             (log @ [Get (endpoint d)])"
proof -
  have "checkConnection t (endpoint d) log = (None, log @ [Get (endpoint d)])"
    using assms checkConnection_pair [of t "endpoint d" log] by simp
  then show ?thesis by (simp add: providerConfigure_def)
qed

text \<open>
  C6. When \<^verbatim>\<open>checkConnection\<close> fails with \<open>err\<close>, \<^verbatim>\<open>providerConfigure\<close> returns a
  nil Config and the single Error diagnostic "Error connecting to Kuzzle: " followed by
  the text of \<open>err\<close>, and the GET of the connection check is the only request it has
  sent: neither the login nor the token check is called.
\<close>

theorem providerConfigure_connection_error:
  assumes "fst (checkConnection t (endpoint d) log) = Some err"
  shows "providerConfigure t d log =
           (Inr (None, [\<lparr>Severity = diag_Error,
                         Summary = ''Error connecting to Kuzzle: '' @ Error err,
                         Detail = ''''\<rparr>]),
            log @ [Get (endpoint d)])"
proof -
  have "checkConnection t (endpoint d) log = (Some err, log @ [Get (endpoint d)])"
    using assms checkConnection_pair [of t "endpoint d" log] by simp
  then show ?thesis by (simp add: providerConfigure_def diag_Errorf_def)
qed

theorem providerConfigure_connection_error_witness:
  "fst (checkConnection gock_off (endpoint (settings ''abc123'' ''admin'' ''secret'')) []) =
     Some (UrlError ''dial tcp: lookup kuzzle: no such host'') \<and>
   providerConfigure gock_off (settings ''abc123'' ''admin'' ''secret'') [] =
     (Inr (None, [\<lparr>Severity = diag_Error,
                   Summary = ''Error connecting to Kuzzle: dial tcp: lookup kuzzle: no such host'',
                   Detail = ''''\<rparr>]),
      [Get ''http://kuzzle:7512''])"
proof -
  have h: "fst (checkConnection gock_off (endpoint (settings ''abc123'' ''admin'' ''secret'')) []) =
             Some (UrlError ''dial tcp: lookup kuzzle: no such host'')"
    by (simp add: checkConnection_def send_def gock_off_def)
  show ?thesis
    using h providerConfigure_connection_error [OF h] by (simp add: settings_def)
qed

text \<open>
  C7. The connection check succeeds, username and password are both non-empty and
  api_key is empty. If \<^verbatim>\<open>tryAuthenticate\<close> returns the token \<open>j\<close> and no error,
  \<^verbatim>\<open>providerConfigure\<close> returns the Config of the endpoint and \<open>j\<close> with no
  diagnostic; if it returns an error, \<^verbatim>\<open>providerConfigure\<close> returns no Config and
  the one Error diagnostic "Kuzzle authentication failed".
\<close>

theorem providerConfigure_username_password:
  assumes "fst (checkConnection t (endpoint d) log) = None"
    and "username d \<noteq> ''''" and "password d \<noteq> ''''" and "api_key d = ''''"
  shows "(tryAuthenticate t (endpoint d) (username d) (password d) (log @ [Get (endpoint d)]) =
            (Inr (j, None), log')
          \<longrightarrow> providerConfigure t d log =
                (Inr (Some \<lparr>Endpoint = endpoint d, Token = j\<rparr>, []), log')) \<and>
         (tryAuthenticate t (endpoint d) (username d) (password d) (log @ [Get (endpoint d)]) =
            (Inr (j, Some err), log')
          \<longrightarrow> providerConfigure t d log =
                (Inr (None, [\<lparr>Severity = diag_Error,
                              Summary = ''Kuzzle authentication failed'',
                              Detail = Error err\<rparr>]), log'))"
  using assms
  by (simp add: providerConfigure_connected credentials_step_def api_key_step_def
      anonymous_step_def)

text \<open>
  C8. The connection check succeeds and neither branch sets a Config: the
  username/password branch is skipped (one of the two is empty) and so is the api_key
  branch (api_key is empty). Then \<^verbatim>\<open>providerConfigure\<close> returns the Config of the
  endpoint with the empty token, and exactly one diagnostic, the Warning about missing
  credentials.
\<close>

theorem providerConfigure_anonymous:
  assumes "fst (checkConnection t (endpoint d) log) = None"
    and "username d = '''' \<or> password d = ''''" and "api_key d = ''''"
  shows "providerConfigure t d log =
           (Inr (Some \<lparr>Endpoint = endpoint d, Token = ''''\<rparr>,
                 [\<lparr>Severity = diag_Warning,
                   Summary = ''Kuzzle authentication credentials not provided'',
                   Detail = ''No authentication credentials provided. Using anonymous authentication...''\<rparr>]),
            log @ [Get (endpoint d)])"
  using assms
  by (auto simp: providerConfigure_connected credentials_step_def api_key_step_def
      anonymous_step_def)

text \<open>
  C9. The connection check succeeds and exactly one of username and password is empty.
  Then \<^verbatim>\<open>providerConfigure\<close> goes straight to the api_key step with no Config and no
  diagnostic, it returns what it returns when both are empty, and it sends no request
  to the login route.
\<close>

theorem providerConfigure_partial_credentials:
  assumes "fst (checkConnection t (endpoint d) log) = None"
    and "(username d = '''') \<noteq> (password d = '''')"
  shows "providerConfigure t d log =
           api_key_step t (endpoint d) (api_key d) None [] (log @ [Get (endpoint d)]) \<and>
         providerConfigure t d log =
           providerConfigure t (d\<lparr>username := '''', password := ''''\<rparr>) log \<and>
         (\<forall>ct b. Post (endpoint d @ ''/_login/local'') ct b
                 \<notin> set (drop (length log) (snd (providerConfigure t d log))))"
proof -
  have skip: "\<not> (username d \<noteq> '''' \<and> password d \<noteq> '''')"
    using assms(2) by auto
  have a: "providerConfigure t d log =
             api_key_step t (endpoint d) (api_key d) None [] (log @ [Get (endpoint d)])"
    using skip by (auto simp: providerConfigure_connected [OF assms(1)] credentials_step_def)
  have b: "providerConfigure t (d\<lparr>username := '''', password := ''''\<rparr>) log =
             api_key_step t (endpoint d) (api_key d) None [] (log @ [Get (endpoint d)])"
    using assms(1) by (simp add: providerConfigure_connected credentials_step_def)
  have c: "Post (endpoint d @ ''/_login/local'') ct b
             \<notin> set (drop (length log) (snd (providerConfigure t d log)))" for ct b
    by (simp add: a api_key_step_trace)
  show ?thesis using a b c by simp
qed


section \<open>Evaluating the mock servers\<close>

lemma gock_root [simp]: "gock url root login check (Get url) = Inr root"
  by (simp add: gock_def)

lemma gock_login [simp]:
  "gock url root login check (Post (url @ ''/_login/local'') ct b) = Inr login"
  by (simp add: gock_def)

lemma gock_check [simp]:
  "gock url root login check (Post (url @ ''/_checkToken'') ct b) = Inr check"
  by (simp add: gock_def)

lemma checkConnection_gock_200 [simp]:
  "checkConnection (gock url (reply 200 b) login check) url log = (None, log @ [Get url])"
  by (simp add: checkConnection_def send_def reply_def)

lemma tryAuthenticate_gock_jwt [simp]:
  "tryAuthenticate (gock url root (reply 200 body_jwt) check) url user pass log =
     (Inr (''mySuperAuthenticationToken'', None),
      log @ [Post (url @ ''/_login/local'') ''application/json''
               (JObject [(''password'', JString pass), (''username'', JString user)])])"
  by (simp add: tryAuthenticate_def send_def reply_def body_jwt_def object_map_def)

lemma tryAuthenticate_gock_401 [simp]:
  "tryAuthenticate (gock url root (reply 401 b) check) url user pass log =
     (Inr ('''', Some (ErrorString ''Kuzzle authentication failed'')),
      log @ [Post (url @ ''/_login/local'') ''application/json''
               (JObject [(''password'', JString pass), (''username'', JString user)])])"
  by (simp add: tryAuthenticate_def send_def reply_def)

lemma checkToken_gock_valid [simp]:
  "checkToken (gock url root login (reply 200 (body_valid v))) url tok log =
     (Inr (if v then None else Some (ErrorString ''Kuzzle API key is invalid'')),
      log @ [Post (url @ ''/_checkToken'') ''application/json'' (JObject [(''jwt'', JString tok)])])"
  by (simp add: checkToken_def send_def reply_def body_valid_def object_map_def)

lemma settings_fields [simp]:
  "endpoint (settings key user pass) = ''http://kuzzle:7512''"
  "api_key (settings key user pass) = key"
  "username (settings key user pass) = user"
  "password (settings key user pass) = pass"
  by (simp_all add: settings_def)


section \<open>Witnesses\<close>

theorem providerConfigure_username_password_witness:
  "providerConfigure
     (gock ''http://kuzzle:7512'' (reply 200 body_ok) (reply 200 body_jwt) (reply 200 (body_valid True)))
     (settings '''' ''admin'' ''secret'') [] =
     (Inr (Some \<lparr>Endpoint = ''http://kuzzle:7512'', Token = ''mySuperAuthenticationToken''\<rparr>, []),
      [Get ''http://kuzzle:7512'',
       Post ''http://kuzzle:7512/_login/local'' ''application/json''
         (JObject [(''password'', JString ''secret''), (''username'', JString ''admin'')])]) \<and>
   providerConfigure
     (gock ''http://kuzzle:7512'' (reply 200 body_ok) (reply 401 (Malformed '''')) (reply 200 (body_valid True)))
     (settings '''' ''admin'' ''secret'') [] =
     (Inr (None, [\<lparr>Severity = diag_Error,
                   Summary = ''Kuzzle authentication failed'',
                   Detail = ''Kuzzle authentication failed''\<rparr>]),
      [Get ''http://kuzzle:7512'',
       Post ''http://kuzzle:7512/_login/local'' ''application/json''
         (JObject [(''password'', JString ''secret''), (''username'', JString ''admin'')])])"
  using providerConfigure_username_password
          [of "gock ''http://kuzzle:7512'' (reply 200 body_ok) (reply 200 body_jwt) (reply 200 (body_valid True))"
              "settings '''' ''admin'' ''secret''" "[]" "''mySuperAuthenticationToken''"
              "[Get ''http://kuzzle:7512'',
                Post ''http://kuzzle:7512/_login/local'' ''application/json''
                  (JObject [(''password'', JString ''secret''), (''username'', JString ''admin'')])]"]
        providerConfigure_username_password
          [of "gock ''http://kuzzle:7512'' (reply 200 body_ok) (reply 401 (Malformed '''')) (reply 200 (body_valid True))"
              "settings '''' ''admin'' ''secret''" "[]" "''''"
              "[Get ''http://kuzzle:7512'',
                Post ''http://kuzzle:7512/_login/local'' ''application/json''
                  (JObject [(''password'', JString ''secret''), (''username'', JString ''admin'')])]"
              "ErrorString ''Kuzzle authentication failed''"]
  by simp

theorem providerConfigure_anonymous_witness:
  "providerConfigure
     (gock ''http://kuzzle:7512'' (reply 200 body_ok) (reply 200 body_jwt) (reply 200 (body_valid True)))
     (settings '''' '''' '''') [] =
     (Inr (Some \<lparr>Endpoint = ''http://kuzzle:7512'', Token = ''''\<rparr>,
           [\<lparr>Severity = diag_Warning,
             Summary = ''Kuzzle authentication credentials not provided'',
             Detail = ''No authentication credentials provided. Using anonymous authentication...''\<rparr>]),
      [Get ''http://kuzzle:7512''])"
  using providerConfigure_anonymous
          [of "gock ''http://kuzzle:7512'' (reply 200 body_ok) (reply 200 body_jwt) (reply 200 (body_valid True))"
              "settings '''' '''' ''''" "[]"]
  by simp

theorem providerConfigure_partial_credentials_witness:
  "fst (checkConnection
          (gock ''http://kuzzle:7512'' (reply 200 body_ok) (reply 200 body_jwt) (reply 200 (body_valid True)))
          ''http://kuzzle:7512'' []) = None \<and>
   providerConfigure
     (gock ''http://kuzzle:7512'' (reply 200 body_ok) (reply 200 body_jwt) (reply 200 (body_valid True)))
     (settings ''abc123'' ''admin'' '''') [] =
   providerConfigure
     (gock ''http://kuzzle:7512'' (reply 200 body_ok) (reply 200 body_jwt) (reply 200 (body_valid True)))
     (settings ''abc123'' '''' '''') [] \<and>
   (\<forall>ct b. Post ''http://kuzzle:7512/_login/local'' ct b
           \<notin> set (snd (providerConfigure
                  (gock ''http://kuzzle:7512'' (reply 200 body_ok) (reply 200 body_jwt) (reply 200 (body_valid True)))
                  (settings ''abc123'' ''admin'' '''') [])))"
  using providerConfigure_partial_credentials
          [of "gock ''http://kuzzle:7512'' (reply 200 body_ok) (reply 200 body_jwt) (reply 200 (body_valid True))"
              "settings ''abc123'' ''admin'' ''''" "[]"]
  by (simp add: settings_def providerConfigure_def credentials_step_def api_key_step_def
      anonymous_step_def)


section \<open>checkToken\<close>

lemma assert_map_Inr:
  "(assert_map v = Inr m) = (\<exists>kvs. v = Some (JObject kvs) \<and> m = object_map kvs)"
  by (cases v rule: assert_map.cases) auto

lemma assert_bool_Inr: "(assert_bool v = Inr b) = (v = Some (JBool b))"
  by (cases v rule: assert_bool.cases) auto

lemma json_Unmarshal_Inr:
  "(json_Unmarshal b = Inr m) =
     (b = WellFormed JNull \<and> m = Map.empty \<or> (\<exists>kvs. b = WellFormed (JObject kvs) \<and> m = object_map kvs))"
  by (cases b rule: json_Unmarshal.cases) auto

text \<open>What \<^verbatim>\<open>checkToken\<close> returns on a response, the trace left out.\<close>

lemma checkToken_on_response:
  assumes "t (Post (ep @ ''/_checkToken'') ''application/json'' (JObject [(''jwt'', JString tok)])) = Inr resp"
  shows "fst (checkToken t ep tok log) =
           (if StatusCode resp \<noteq> 200 then Inr None
            else case json_Unmarshal (Body resp) of
                   Inl err \<Rightarrow> Inr (Some err)
                 | Inr jsonBody \<Rightarrow>
                     (case assert_map (jsonBody ''result'') of
                        Inl p \<Rightarrow> Inl p
                      | Inr result \<Rightarrow>
                          (case assert_bool (result ''valid'') of
                             Inl p \<Rightarrow> Inl p
                           | Inr valid \<Rightarrow>
                               if valid then Inr None
                               else Inr (Some (ErrorString ''Kuzzle API key is invalid'')))))"
  using assms by (simp add: checkToken_def send_def Let_def split: sum.splits)

lemma checkToken_on_200:
  assumes "t (Post (ep @ ''/_checkToken'') ''application/json'' (JObject [(''jwt'', JString tok)])) = Inr resp"
    and "StatusCode resp = 200"
  shows "(fst (checkToken t ep tok log) = Inr None) =
           (\<exists>kvs kvs'. Body resp = WellFormed (JObject kvs) \<and>
                        object_map kvs ''result'' = Some (JObject kvs') \<and>
                        object_map kvs' ''valid'' = Some (JBool True))"
proof
  assume ok: "fst (checkToken t ep tok log) = Inr None"
  from ok obtain jsonBody where u: "json_Unmarshal (Body resp) = Inr jsonBody"
    using assms by (auto simp: checkToken_on_response split: sum.splits)
  from ok u obtain result where r: "assert_map (jsonBody ''result'') = Inr result"
    using assms by (auto simp: checkToken_on_response split: sum.splits)
  from ok u r have v: "assert_bool (result ''valid'') = Inr True"
    using assms by (auto simp: checkToken_on_response split: sum.splits if_splits)
  from r obtain kvs' where k': "jsonBody ''result'' = Some (JObject kvs')" "result = object_map kvs'"
    by (auto simp: assert_map_Inr)
  from u k'(1) obtain kvs where k: "Body resp = WellFormed (JObject kvs)" "jsonBody = object_map kvs"
    by (auto simp: json_Unmarshal_Inr)
  from v have "result ''valid'' = Some (JBool True)"
    by (simp add: assert_bool_Inr)
  with k k' show "\<exists>kvs kvs'. Body resp = WellFormed (JObject kvs) \<and>
                        object_map kvs ''result'' = Some (JObject kvs') \<and>
                        object_map kvs' ''valid'' = Some (JBool True)"
    by auto
next
  assume "\<exists>kvs kvs'. Body resp = WellFormed (JObject kvs) \<and>
                        object_map kvs ''result'' = Some (JObject kvs') \<and>
                        object_map kvs' ''valid'' = Some (JBool True)"
  then show "fst (checkToken t ep tok log) = Inr None"
    using assms by (auto simp: checkToken_on_response)
qed

text \<open>
  What the code does: \<^verbatim>\<open>checkToken\<close> returns the nil error exactly when the POST is
  answered and either the response status is not 200, or the status is 200 and the body
  is a JSON object whose member \<open>result\<close> is an object whose member \<open>valid\<close> is
  \<open>true\<close>.
\<close>

lemma checkToken_succeeds_iff:
  "(fst (checkToken t ep tok log) = Inr None) =
     (case t (Post (ep @ ''/_checkToken'') ''application/json'' (JObject [(''jwt'', JString tok)])) of
        Inl err \<Rightarrow> False
      | Inr resp \<Rightarrow>
          if StatusCode resp = 200
          then (\<exists>kvs kvs'. Body resp = WellFormed (JObject kvs) \<and>
                            object_map kvs ''result'' = Some (JObject kvs') \<and>
                            object_map kvs' ''valid'' = Some (JBool True))
          else True)"
proof (cases "t (Post (ep @ ''/_checkToken'') ''application/json'' (JObject [(''jwt'', JString tok)]))")
  case (Inl err)
  then show ?thesis by (simp add: checkToken_def send_def Let_def)
next
  case (Inr resp)
  show ?thesis
  proof (cases "StatusCode resp = 200")
    case True
    with Inr checkToken_on_200 [of t ep tok resp log] show ?thesis by simp
  next
    case False
    with Inr show ?thesis by (simp add: checkToken_on_response)
  qed
qed

text \<open>
  The guard of line 167 returns the \<^verbatim>\<open>err\<close> of the Post call, which is nil once line
  163 has been passed: every answered request with a status other than 200 gives the nil
  error.
\<close>

lemma checkToken_non_200:
  assumes "t (Post (ep @ ''/_checkToken'') ''application/json'' (JObject [(''jwt'', JString tok)])) = Inr resp"
    and "StatusCode resp \<noteq> 200"
  shows "fst (checkToken t ep tok log) = Inr None"
  using assms by (simp add: checkToken_on_response)

text \<open>
  C1. The code at the failing inputs: the token check answered with status 401, 403 and
  500. The claim says \<^verbatim>\<open>checkToken\<close> fails on every status other than 200;
  \<^verbatim>\<open>checkToken\<close> returns the nil error on each, as it does for a valid token.
\<close>

theorem checkToken_non_200_returns_nil:
  "fst (checkToken
          (gock ''http://kuzzle:7512'' (reply 200 body_ok) (reply 200 body_jwt)
             (reply 401 (Malformed '''')))
          ''http://kuzzle:7512'' ''abc123'' []) = Inr None \<and>
   fst (checkToken
          (gock ''http://kuzzle:7512'' (reply 200 body_ok) (reply 200 body_jwt)
             (reply 403 body_not_authorized))
          ''http://kuzzle:7512'' ''abc123'' []) = Inr None \<and>
   fst (checkToken
          (gock ''http://kuzzle:7512'' (reply 200 body_ok) (reply 200 body_jwt)
             (reply 500 (Malformed '''')))
          ''http://kuzzle:7512'' ''abc123'' []) = Inr None"
  by (simp add: checkToken_def send_def Let_def reply_def gock_def)


section \<open>When providerConfigure returns no Config\<close>

lemma anonymous_step_config: "fst (anonymous_step ep config diags) \<noteq> None"
  by (simp add: anonymous_step_def)

lemma api_key_step_no_config:
  assumes "api_key_step t ep key config ds log = (Inr (None, diags), log')"
  shows "config = None \<and> key \<noteq> '''' \<and>
         (\<exists>e. fst (checkToken t ep key log) = Inr (Some e) \<and>
              diags = ds @ [\<lparr>Severity = diag_Error,
                             Summary = ''Kuzzle provided API key is invalid'',
                             Detail = Error e\<rparr>])"
proof (cases "key = ''''")
  case True
  with assms have "fst (anonymous_step ep config ds) = None"
    by (simp add: api_key_step_def)
  with anonymous_step_config show ?thesis by blast
next
  case False
  obtain r l where ct: "checkToken t ep key log = (r, l)" by (cases "checkToken t ep key log")
  show ?thesis
  proof (cases r)
    case (Inl p)
    with assms False ct show ?thesis by (simp add: api_key_step_def)
  next
    case (Inr eo)
    show ?thesis
    proof (cases eo)
      case None
      with assms False ct Inr
      have "fst (anonymous_step ep (Some \<lparr>Endpoint = ep, Token = key\<rparr>) ds) = None"
        by (simp add: api_key_step_def)
      with anonymous_step_config show ?thesis by blast
    next
      case (Some e)
      with assms False ct Inr show ?thesis by (auto simp: api_key_step_def)
    qed
  qed
qed

lemma credentials_step_no_config:
  assumes "credentials_step t ep key user pass None [] log = (Inr (None, diags), log')"
  shows "(\<exists>x. diags = [x] \<and> Severity x = diag_Error) \<and>
         (user \<noteq> '''' \<and> pass \<noteq> '''' \<and>
            (\<exists>j e. fst (tryAuthenticate t ep user pass log) = Inr (j, Some e))
          \<or> key \<noteq> '''' \<and> (\<exists>e l. fst (checkToken t ep key l) = Inr (Some e)))"
proof (cases "user \<noteq> '''' \<and> pass \<noteq> ''''")
  case False
  with assms have "api_key_step t ep key None [] log = (Inr (None, diags), log')"
    by (auto simp: credentials_step_def)
  from api_key_step_no_config [OF this]
  obtain e where "key \<noteq> ''''" and "fst (checkToken t ep key log) = Inr (Some e)"
    and "diags = [\<lparr>Severity = diag_Error,
                   Summary = ''Kuzzle provided API key is invalid'',
                   Detail = Error e\<rparr>]"
    by auto
  then show ?thesis by auto
next
  case True
  obtain r l where ta: "tryAuthenticate t ep user pass log = (r, l)"
    by (cases "tryAuthenticate t ep user pass log")
  show ?thesis
  proof (cases r)
    case (Inl p)
    with assms True ta show ?thesis by (simp add: credentials_step_def)
  next
    case (Inr je)
    obtain j eo where je: "je = (j, eo)" by (cases je)
    show ?thesis
    proof (cases eo)
      case None
      with assms True ta Inr je
      have "api_key_step t ep key (Some \<lparr>Endpoint = ep, Token = j\<rparr>) [] l = (Inr (None, diags), log')"
        by (simp add: credentials_step_def)
      from api_key_step_no_config [OF this] show ?thesis by simp
    next
      case (Some e)
      with assms True ta Inr je show ?thesis by (auto simp: credentials_step_def)
    qed
  qed
qed

text \<open>
  C4, as amended. Whenever \<^verbatim>\<open>providerConfigure\<close> returns with no Config, it returns
  exactly one diagnostic, of severity Error, and one of three things has happened: the
  connection check failed, or username and password were both set and
  \<^verbatim>\<open>tryAuthenticate\<close> returned an error, or api_key was set and \<^verbatim>\<open>checkToken\<close>
  returned an error.
\<close>

theorem providerConfigure_no_config:
  assumes "providerConfigure t d log = (Inr (None, diags), log')"
  shows "(\<exists>x. diags = [x] \<and> Severity x = diag_Error) \<and>
         ((\<exists>e. fst (checkConnection t (endpoint d) log) = Some e)
          \<or> username d \<noteq> '''' \<and> password d \<noteq> '''' \<and>
            (\<exists>j e. fst (tryAuthenticate t (endpoint d) (username d) (password d)
                           (log @ [Get (endpoint d)])) = Inr (j, Some e))
          \<or> api_key d \<noteq> '''' \<and>
            (\<exists>e l. fst (checkToken t (endpoint d) (api_key d) l) = Inr (Some e)))"
proof (cases "fst (checkConnection t (endpoint d) log)")
  case (Some e)
  have "checkConnection t (endpoint d) log = (Some e, log @ [Get (endpoint d)])"
    using Some checkConnection_pair [of t "endpoint d" log] by simp
  with assms have "diags = diag_Errorf (''Error connecting to Kuzzle: '' @ Error e)"
    by (simp add: providerConfigure_def)
  with Some show ?thesis by (simp add: diag_Errorf_def)
next
  case None
  with assms
  have "credentials_step t (endpoint d) (api_key d) (username d) (password d) None []
          (log @ [Get (endpoint d)]) = (Inr (None, diags), log')"
    by (simp add: providerConfigure_connected)
  from credentials_step_no_config [OF this] show ?thesis by blast
qed

text \<open>
  C4 as stated fails: the connection check succeeds, the login is answered 401, and
  \<^verbatim>\<open>providerConfigure\<close> returns no Config.
\<close>

theorem providerConfigure_no_config_counterexample:
  "fst (checkConnection
          (gock ''http://kuzzle:7512'' (reply 200 body_ok) (reply 401 (Malformed ''''))
             (reply 200 (body_valid True)))
          ''http://kuzzle:7512'' []) = None \<and>
   fst (providerConfigure
          (gock ''http://kuzzle:7512'' (reply 200 body_ok) (reply 401 (Malformed ''''))
             (reply 200 (body_valid True)))
          (settings '''' ''admin'' ''secret'') []) =
     Inr (None, [\<lparr>Severity = diag_Error,
                  Summary = ''Kuzzle authentication failed'',
                  Detail = ''Kuzzle authentication failed''\<rparr>])"
  by (simp add: providerConfigure_def credentials_step_def)

theorem providerConfigure_no_config_witness:
  "providerConfigure
     (gock ''http://kuzzle:7512'' (reply 200 body_ok) (reply 200 body_jwt) (reply 200 (body_valid False)))
     (settings ''abc123'' '''' '''') [] =
     (Inr (None, [\<lparr>Severity = diag_Error,
                   Summary = ''Kuzzle provided API key is invalid'',
                   Detail = ''Kuzzle API key is invalid''\<rparr>]),
      [Get ''http://kuzzle:7512'',
       Post ''http://kuzzle:7512/_checkToken'' ''application/json''
         (JObject [(''jwt'', JString ''abc123'')])]) \<and>
   fst (checkToken
          (gock ''http://kuzzle:7512'' (reply 200 body_ok) (reply 200 body_jwt) (reply 200 (body_valid False)))
          ''http://kuzzle:7512'' ''abc123'' [Get ''http://kuzzle:7512'']) =
     Inr (Some (ErrorString ''Kuzzle API key is invalid''))"
proof -
  have h: "providerConfigure
     (gock ''http://kuzzle:7512'' (reply 200 body_ok) (reply 200 body_jwt) (reply 200 (body_valid False)))
     (settings ''abc123'' '''' '''') [] =
     (Inr (None, [\<lparr>Severity = diag_Error,
                   Summary = ''Kuzzle provided API key is invalid'',
                   Detail = ''Kuzzle API key is invalid''\<rparr>]),
      [Get ''http://kuzzle:7512'',
       Post ''http://kuzzle:7512/_checkToken'' ''application/json''
         (JObject [(''jwt'', JString ''abc123'')])])"
    by (simp add: providerConfigure_def credentials_step_def api_key_step_def)
  show ?thesis
    using h providerConfigure_no_config [OF h] by simp
qed


section \<open>A rejected api_key after a successful login\<close>

text \<open>
  When the login has set \<^verbatim>\<open>config\<close> and \<^verbatim>\<open>checkToken\<close> then returns an error, the
  bare \<^verbatim>\<open>return\<close> of line 115 returns that \<^verbatim>\<open>config\<close> with the diagnostic.
\<close>

lemma providerConfigure_login_then_invalid_key:
  assumes "fst (checkConnection t (endpoint d) log) = None"
    and "username d \<noteq> ''''" and "password d \<noteq> ''''" and "api_key d \<noteq> ''''"
    and "tryAuthenticate t (endpoint d) (username d) (password d) (log @ [Get (endpoint d)]) =
           (Inr (j, None), log1)"
    and "checkToken t (endpoint d) (api_key d) log1 = (Inr (Some err), log2)"
  shows "providerConfigure t d log =
           (Inr (Some \<lparr>Endpoint = endpoint d, Token = j\<rparr>,
                 [\<lparr>Severity = diag_Error,
                   Summary = ''Kuzzle provided API key is invalid'',
                   Detail = Error err\<rparr>]), log2)"
  using assms
  by (simp add: providerConfigure_connected credentials_step_def api_key_step_def)

text \<open>
  C2. The code at the failing input: username, password and api_key all set, the login
  answered with a token, the token check answered \<open>valid: false\<close>. The claim says the
  returned Config is nil; \<^verbatim>\<open>providerConfigure\<close> returns the Config of the login
  together with the Error diagnostic "Kuzzle provided API key is invalid".
\<close>

theorem providerConfigure_invalid_key_keeps_login_config:
  "providerConfigure
     (gock ''http://kuzzle:7512'' (reply 200 body_ok) (reply 200 body_jwt) (reply 200 (body_valid False)))
     (settings ''abc123'' ''admin'' ''secret'') [] =
     (Inr (Some \<lparr>Endpoint = ''http://kuzzle:7512'', Token = ''mySuperAuthenticationToken''\<rparr>,
           [\<lparr>Severity = diag_Error,
             Summary = ''Kuzzle provided API key is invalid'',
             Detail = ''Kuzzle API key is invalid''\<rparr>]),
      [Get ''http://kuzzle:7512'',
       Post ''http://kuzzle:7512/_login/local'' ''application/json''
         (JObject [(''password'', JString ''secret''), (''username'', JString ''admin'')]),
       Post ''http://kuzzle:7512/_checkToken'' ''application/json''
         (JObject [(''jwt'', JString ''abc123'')])])"
  by (simp add: providerConfigure_def credentials_step_def api_key_step_def)


section \<open>Unchecked type assertions\<close>

lemma assert_string_Inr: "(assert_string v = Inr s) = (v = Some (JString s))"
  by (cases v rule: assert_string.cases) auto

text \<open>
  On a 200 response whose body is a JSON object, \<^verbatim>\<open>tryAuthenticate\<close> panics unless
  \<open>result\<close> is an object and \<open>result.jwt\<close> a string, and \<^verbatim>\<open>checkToken\<close> panics
  unless \<open>result\<close> is an object and \<open>result.valid\<close> a boolean.
\<close>

lemma tryAuthenticate_panics:
  assumes "t (Post (ep @ ''/_login/local'') ''application/json''
               (JObject [(''password'', JString pass), (''username'', JString user)])) = Inr resp"
    and "StatusCode resp = 200" and "Body resp = WellFormed (JObject kvs)"
    and "\<nexists>kvs' s. object_map kvs ''result'' = Some (JObject kvs') \<and>
                   object_map kvs' ''jwt'' = Some (JString s)"
  shows "fst (tryAuthenticate t ep user pass log) = Inl InterfaceConversion"
proof (cases "assert_map (object_map kvs ''result'')")
  case (Inl p)
  then have "assert_map (object_map kvs ''result'') = Inl InterfaceConversion"
    by (cases "object_map kvs ''result''" rule: assert_map.cases) simp_all
  with assms show ?thesis
    by (simp add: tryAuthenticate_def send_def Let_def)
next
  case (Inr result)
  then obtain kvs' where k: "object_map kvs ''result'' = Some (JObject kvs')" "result = object_map kvs'"
    by (auto simp: assert_map_Inr)
  with assms(4) have "\<nexists>s. result ''jwt'' = Some (JString s)" by simp
  then have "assert_string (result ''jwt'') = Inl InterfaceConversion"
    by (cases "result ''jwt''" rule: assert_string.cases) simp_all
  with assms Inr show ?thesis
    by (simp add: tryAuthenticate_def send_def Let_def)
qed

lemma checkToken_panics:
  assumes "t (Post (ep @ ''/_checkToken'') ''application/json'' (JObject [(''jwt'', JString tok)])) = Inr resp"
    and "StatusCode resp = 200" and "Body resp = WellFormed (JObject kvs)"
    and "\<nexists>kvs' b. object_map kvs ''result'' = Some (JObject kvs') \<and>
                   object_map kvs' ''valid'' = Some (JBool b)"
  shows "fst (checkToken t ep tok log) = Inl InterfaceConversion"
proof (cases "assert_map (object_map kvs ''result'')")
  case (Inl p)
  then have "assert_map (object_map kvs ''result'') = Inl InterfaceConversion"
    by (cases "object_map kvs ''result''" rule: assert_map.cases) simp_all
  with assms show ?thesis
    by (simp add: checkToken_on_response)
next
  case (Inr result)
  then obtain kvs' where k: "object_map kvs ''result'' = Some (JObject kvs')" "result = object_map kvs'"
    by (auto simp: assert_map_Inr)
  with assms(4) have "\<nexists>b. result ''valid'' = Some (JBool b)" by simp
  then have "assert_bool (result ''valid'') = Inl InterfaceConversion"
    by (cases "result ''valid''" rule: assert_bool.cases) simp_all
  with assms Inr show ?thesis
    by (simp add: checkToken_on_response)
qed

text \<open>
  C3. The code at the failing input: a 200 response whose body is the well-formed JSON
  \<^verbatim>\<open>{"result": {}}\<close>. The claim says \<^verbatim>\<open>tryAuthenticate\<close> and \<^verbatim>\<open>checkToken\<close>
  return an error; both panic on the type assertion instead.
\<close>

theorem helpers_panic_on_empty_result:
  "fst (tryAuthenticate
          (gock ''http://kuzzle:7512'' (reply 200 body_ok) (reply 200 body_empty_result)
             (reply 200 body_empty_result))
          ''http://kuzzle:7512'' ''admin'' ''secret'' []) = Inl InterfaceConversion \<and>
   fst (checkToken
          (gock ''http://kuzzle:7512'' (reply 200 body_ok) (reply 200 body_empty_result)
             (reply 200 body_empty_result))
          ''http://kuzzle:7512'' ''abc123'' []) = Inl InterfaceConversion"
  by (simp add: tryAuthenticate_def checkToken_def send_def Let_def gock_def reply_def
      body_empty_result_def object_map_def)


section \<open>The validator after a parse error\<close>

text \<open>
  C10. Whenever \<^verbatim>\<open>url.Parse\<close> returns an error for the endpoint string, the
  validator does not return its errors: it reads \<^verbatim>\<open>URL.Scheme\<close> through the nil
  pointer and panics.
\<close>

theorem ValidateFunc_parse_error_panics:
  assumes "url_Parse v = Inl err"
  shows "ValidateFunc url_Parse v k = Inl NilDereference"
  using assms by (simp add: ValidateFunc_def Let_def)

theorem ValidateFunc_parse_error_panics_witness:
  "url_Parse_rejecting '':foo'' = Inl (UrlError ''missing protocol scheme'') \<and>
   ValidateFunc url_Parse_rejecting '':foo'' ''endpoint'' = Inl NilDereference"
proof -
  have h: "url_Parse_rejecting '':foo'' = Inl (UrlError ''missing protocol scheme'')"
    by (simp add: url_Parse_rejecting_def)
  show ?thesis
    using h ValidateFunc_parse_error_panics
              [of url_Parse_rejecting "'':foo''" "UrlError ''missing protocol scheme''" "''endpoint''"]
    by simp
qed

end
